theory Spec2Isabelle
  imports Main "HOL-Library.AList"
begin

text \<open>
  The repository reads configuration values by key path.  It has two source files:
  \<^verbatim>\<open>part_000\<close> (\<^verbatim>\<open>Get\<close>, \<^verbatim>\<open>String\<close>, \<^verbatim>\<open>Int\<close>, \<^verbatim>\<open>Int64\<close>, \<^verbatim>\<open>Ints\<close>,
  \<^verbatim>\<open>Strings\<close>, \<^verbatim>\<open>StringMap\<close>, \<^verbatim>\<open>Structure\<close>, \<^verbatim>\<open>parseEnvValue\<close>) and
  \<^verbatim>\<open>config_get.go\<close>, a shorter version of the same accessors (\<^verbatim>\<open>Get\<close>,
  \<^verbatim>\<open>GetString\<close>, \<^verbatim>\<open>GetInt\<close>, \<^verbatim>\<open>GetInt64\<close>, \<^verbatim>\<open>GetIntArr\<close>, \<^verbatim>\<open>GetStructure\<close>).
  Both are embedded; the functions of \<^verbatim>\<open>part_000\<close> keep their names (\<^verbatim>\<open>Int\<close> is
  \<open>Int_acc\<close>), \<^verbatim>\<open>Get\<close> of \<^verbatim>\<open>config_get.go\<close> is \<open>config_get_Get\<close>.
\<close>

section \<open>Dynamically typed values of the Value Store\<close>

text \<open>
  The store holds Go values of type \<^verbatim>\<open>interface{}\<close>.  The type switches of the two
  source files tell the dynamic types apart, so every dynamic type they name is a
  constructor of its own.  Integers carry their Go type as a tag; a floating-point number
  is carried as the text that \<^verbatim>\<open>fmt.Sprintf("%v", f)\<close> prints for it, which is all the
  code ever does with one.  A Go map is an association list with distinct keys (looked
  up with \<^const>\<open>map_of\<close>), a slice is a list.
\<close>

datatype ikind = KInt | KInt8 | KInt16 | KInt32 | KInt64
  | KUint | KUint8 | KUint16 | KUint32 | KUint64

datatype fkind = KFloat32 | KFloat64

datatype iface =
    VNil
  | VBool bool
  | VInt ikind int
  | VFloat fkind string
  | VString string
  | VMapStringString "(string \<times> string) list"
  | VMapStringInt "(string \<times> int) list"
  | VMapStringAny "(string \<times> iface) list"
  | VMapAnyAny "(iface \<times> iface) list"
  | VSliceInt "int list"
  | VSliceString "string list"
  | VSliceAny "iface list"

text \<open>A run-time panic of the Go program is a value of its own.\<close>

datatype fault = IndexOutOfRange

type_synonym 'a go = "fault + 'a"

section \<open>The standard-library functions the code calls\<close>

subsection \<open>strings.TrimSpace, strings.Trim, strings.Contains, strings.Split\<close>

text \<open>
  \<^verbatim>\<open>strings.TrimSpace\<close> removes leading and trailing white space as Unicode defines it.
  A Go string is a byte sequence; the white-space code points are listed here by their
  UTF-8 encodings (U+0009..U+000D, U+0020, U+0085, U+00A0, U+1680, U+2000..U+200A,
  U+2028, U+2029, U+202F, U+205F, U+3000).
\<close>

definition unicode_spaces :: "string list" where
  "unicode_spaces =
     [[CHR 0x09], [CHR 0x0A], [CHR 0x0B], [CHR 0x0C], [CHR 0x0D], [CHR 0x20],
      [CHR 0xC2, CHR 0x85], [CHR 0xC2, CHR 0xA0], [CHR 0xE1, CHR 0x9A, CHR 0x80],
      [CHR 0xE2, CHR 0x80, CHR 0x80], [CHR 0xE2, CHR 0x80, CHR 0x81],
      [CHR 0xE2, CHR 0x80, CHR 0x82], [CHR 0xE2, CHR 0x80, CHR 0x83],
      [CHR 0xE2, CHR 0x80, CHR 0x84], [CHR 0xE2, CHR 0x80, CHR 0x85],
      [CHR 0xE2, CHR 0x80, CHR 0x86], [CHR 0xE2, CHR 0x80, CHR 0x87],
      [CHR 0xE2, CHR 0x80, CHR 0x88], [CHR 0xE2, CHR 0x80, CHR 0x89],
      [CHR 0xE2, CHR 0x80, CHR 0x8A], [CHR 0xE2, CHR 0x80, CHR 0xA8],
      [CHR 0xE2, CHR 0x80, CHR 0xA9], [CHR 0xE2, CHR 0x80, CHR 0xAF],
      [CHR 0xE2, CHR 0x81, CHR 0x9F], [CHR 0xE3, CHR 0x80, CHR 0x80]]"

fun strip_prefix :: "string \<Rightarrow> string \<Rightarrow> string option" where
  "strip_prefix [] s = Some s"
| "strip_prefix (p # ps) [] = None"
| "strip_prefix (p # ps) (c # cs) = (if p = c then strip_prefix ps cs else None)"

text \<open>The first of the given prefixes that the string starts with, taken off.\<close>

fun strip_any :: "string list \<Rightarrow> string \<Rightarrow> string option" where
  "strip_any [] s = None"
| "strip_any (p # ps) s =
     (case strip_prefix p s of Some r \<Rightarrow> Some r | None \<Rightarrow> strip_any ps s)"

lemma strip_prefix_length:
  "strip_prefix p s = Some r \<Longrightarrow> length s = length p + length r"
  by (induction p s rule: strip_prefix.induct) (auto split: if_splits)

lemma strip_any_shorter:
  "strip_any ps s = Some r \<Longrightarrow> [] \<notin> set ps \<Longrightarrow> length r < length s"
proof (induction ps)
  case Nil
  then show ?case by simp
next
  case (Cons p ps)
  show ?case
  proof (cases "strip_prefix p s")
    case None
    with Cons show ?thesis by simp
  next
    case (Some r')
    with Cons.prems have "r' = r" and "p \<noteq> []" by auto
    with Some strip_prefix_length [of p s r] show ?thesis by (cases p) auto
  qed
qed

text \<open>
  Taking prefixes off for as long as one of them is there.  The prefixes are never
  empty where the function is used; with an empty one nothing is taken off.
\<close>

function TrimLeft :: "string list \<Rightarrow> string \<Rightarrow> string" where
  "TrimLeft ps s =
     (if [] \<in> set ps then s
      else case strip_any ps s of Some r \<Rightarrow> TrimLeft ps r | None \<Rightarrow> s)"
  by pat_completeness auto
termination
  by (relation "measure (\<lambda>(ps, s). length s)") (auto dest: strip_any_shorter)

declare TrimLeft.simps [simp del]

definition TrimBoth :: "string list \<Rightarrow> string \<Rightarrow> string" where
  "TrimBoth ps s = rev (TrimLeft (map rev ps) (rev (TrimLeft ps s)))"

definition TrimSpace :: "string \<Rightarrow> string" where
  "TrimSpace s = TrimBoth unicode_spaces s"

text \<open>\<^verbatim>\<open>strings.Trim(s, cutset)\<close> for a cutset of ASCII characters.\<close>

definition Trim :: "string \<Rightarrow> string \<Rightarrow> string" where
  "Trim s cutset = TrimBoth (map (\<lambda>c. [c]) cutset) s"

text \<open>\<^verbatim>\<open>strings.Contains(s, sep)\<close> and \<^verbatim>\<open>strings.Split(s, sep)\<close> for a separator
  of one character.\<close>

definition Contains :: "string \<Rightarrow> char \<Rightarrow> bool" where
  "Contains s sep = (sep \<in> set s)"

fun Split :: "string \<Rightarrow> char \<Rightarrow> string list" where
  "Split [] sep = [[]]"
| "Split (c # cs) sep =
     (if c = sep then [] # Split cs sep
      else (case Split cs sep of w # ws \<Rightarrow> (c # w) # ws | [] \<Rightarrow> [[c]]))"

text \<open>\<^verbatim>\<open>strings.SplitN(s, sep, 2)\<close>: cut at the first separator, if there is one.\<close>

definition SplitN2 :: "string \<Rightarrow> char \<Rightarrow> string list" where
  "SplitN2 s sep =
     (if sep \<in> set s then [takeWhile (\<lambda>c. c \<noteq> sep) s, tl (dropWhile (\<lambda>c. c \<noteq> sep) s)]
      else [s])"

subsection \<open>strconv.Atoi and the decimal text of an integer\<close>

text \<open>
  \<^verbatim>\<open>strconv.Atoi\<close> accepts an optional sign followed by at least one decimal digit and
  nothing else, and reports a range error outside the 64-bit \<^verbatim>\<open>int\<close>.  \<open>None\<close> stands
  for a non-nil \<^verbatim>\<open>err\<close>.
\<close>

definition is_digit :: "char \<Rightarrow> bool" where
  "is_digit c = (c \<in> set ''0123456789'')"

definition digit_val :: "char \<Rightarrow> int" where
  "digit_val c = int (of_char c) - 48"

definition digits_val :: "string \<Rightarrow> int" where
  "digits_val ds = foldl (\<lambda>n c. n * 10 + digit_val c) 0 ds"

definition Atoi :: "string \<Rightarrow> int option" where
  "Atoi s =
     (let neg = (case s of c # _ \<Rightarrow> c = CHR ''-'' | [] \<Rightarrow> False);
          ds = (case s of c # r \<Rightarrow> if c = CHR ''-'' \<or> c = CHR ''+'' then r else s | [] \<Rightarrow> s)
      in if ds = [] \<or> \<not> list_all is_digit ds then None
         else let v = (if neg then - digits_val ds else digits_val ds)
              in if v < - (2 ^ 63) \<or> 2 ^ 63 - 1 < v then None else Some v)"

text \<open>The decimal text of an integer, as \<^verbatim>\<open>%v\<close> and \<^verbatim>\<open>%d\<close> print it.\<close>

definition digit_char :: "nat \<Rightarrow> char" where
  "digit_char n = ''0123456789'' ! n"

function show_nat :: "nat \<Rightarrow> string" where
  "show_nat n = (if n < 10 then [digit_char n] else show_nat (n div 10) @ [digit_char (n mod 10)])"
  by pat_completeness auto
termination
  by (relation "measure id") auto

declare show_nat.simps [simp del]

definition Itoa :: "int \<Rightarrow> string" where
  "Itoa i = (if i < 0 then CHR ''-'' # show_nat (nat (- i)) else show_nat (nat i))"

subsection \<open>fmt.Sprintf("%v", v)\<close>

text \<open>
  \<^verbatim>\<open>fmt\<close> prints the entries of a map sorted by key.  String keys are ordered byte by
  byte.  Keys of type \<^verbatim>\<open>interface{}\<close> are ordered nil first, then by dynamic type, then
  by value: false before true, integers and floating-point numbers by their value (a NaN
  first), strings byte by byte.  Between two dynamic types \<^verbatim>\<open>fmt\<close> decides by the
  addresses of the type descriptors, which the program does not fix; \<open>type_rank\<close>
  stands for that order.  Maps and slices cannot be keys.  The sort is stable.
\<close>

fun str_less :: "string \<Rightarrow> string \<Rightarrow> bool" where
  "str_less [] [] = False"
| "str_less [] (y # ys) = True"
| "str_less (x # xs) [] = False"
| "str_less (x # xs) (y # ys) =
     ((of_char x :: nat) < of_char y \<or> (x = y \<and> str_less xs ys))"

text \<open>The number that the \<^verbatim>\<open>%v\<close> text of a floating-point number denotes: a mantissa
  and a decimal exponent, an infinity, or NaN.\<close>

datatype fnum = FNaN | FInf bool | FNum int int

definition parse_float :: "string \<Rightarrow> fnum" where
  "parse_float s =
     (if s = ''+Inf'' then FInf False
      else if s = ''-Inf'' then FInf True
      else
        let neg = (case s of c # _ \<Rightarrow> c = CHR ''-'' | [] \<Rightarrow> False);
            u = (if neg then tl s else s);
            ip = takeWhile is_digit u;
            r1 = dropWhile is_digit u;
            fp = (case r1 of c # r \<Rightarrow> if c = CHR ''.'' then takeWhile is_digit r else [] | [] \<Rightarrow> []);
            r2 = (case r1 of c # r \<Rightarrow> if c = CHR ''.'' then dropWhile is_digit r else r1 | [] \<Rightarrow> []);
            ex = (case r2 of c # r \<Rightarrow> if c = CHR ''e'' then Atoi r else None | [] \<Rightarrow> Some 0)
        in if ip = [] then FNaN
           else (case ex of
                   None \<Rightarrow> FNaN
                 | Some e \<Rightarrow> FNum ((if neg then - 1 else 1) * digits_val (ip @ fp)) (e - int (length fp))))"

fun fnum_less :: "fnum \<Rightarrow> fnum \<Rightarrow> bool" where
  "fnum_less FNaN FNaN = False"
| "fnum_less FNaN b = True"
| "fnum_less a FNaN = False"
| "fnum_less (FInf n1) (FInf n2) = (n1 \<and> \<not> n2)"
| "fnum_less (FInf n) (FNum m e) = n"
| "fnum_less (FNum m e) (FInf n) = (\<not> n)"
| "fnum_less (FNum m1 e1) (FNum m2 e2) =
     (m1 * 10 ^ nat (e1 - min e1 e2) < m2 * 10 ^ nat (e2 - min e1 e2))"

fun ikind_rank :: "ikind \<Rightarrow> nat" where
  "ikind_rank KInt = 2" | "ikind_rank KInt8 = 3" | "ikind_rank KInt16 = 4"
| "ikind_rank KInt32 = 5" | "ikind_rank KInt64 = 6" | "ikind_rank KUint = 7"
| "ikind_rank KUint8 = 8" | "ikind_rank KUint16 = 9" | "ikind_rank KUint32 = 10"
| "ikind_rank KUint64 = 11"

fun type_rank :: "iface \<Rightarrow> nat" where
  "type_rank VNil = 0"
| "type_rank (VBool b) = 1"
| "type_rank (VInt k i) = ikind_rank k"
| "type_rank (VFloat KFloat32 txt) = 12"
| "type_rank (VFloat KFloat64 txt) = 13"
| "type_rank (VString s) = 14"
| "type_rank v = 15"

definition key_less :: "iface \<Rightarrow> iface \<Rightarrow> bool" where
  "key_less a b =
     (if type_rank a \<noteq> type_rank b then type_rank a < type_rank b
      else (case a of
              VBool x \<Rightarrow> (case b of VBool y \<Rightarrow> \<not> x \<and> y | _ \<Rightarrow> False)
            | VInt k x \<Rightarrow> (case b of VInt k' y \<Rightarrow> x < y | _ \<Rightarrow> False)
            | VFloat k x \<Rightarrow>
                (case b of VFloat k' y \<Rightarrow> fnum_less (parse_float x) (parse_float y) | _ \<Rightarrow> False)
            | VString x \<Rightarrow> (case b of VString y \<Rightarrow> str_less x y | _ \<Rightarrow> False)
            | _ \<Rightarrow> False))"

text \<open>A stable insertion sort of map entries by key.\<close>

fun insert_entry :: "('k \<Rightarrow> 'k \<Rightarrow> bool) \<Rightarrow> 'k \<times> 'v \<Rightarrow> ('k \<times> 'v) list \<Rightarrow> ('k \<times> 'v) list" where
  "insert_entry lt e [] = [e]"
| "insert_entry lt e (x # xs) =
     (if lt (fst x) (fst e) then x # insert_entry lt e xs else e # x # xs)"

definition sort_entries :: "('k \<Rightarrow> 'k \<Rightarrow> bool) \<Rightarrow> ('k \<times> 'v) list \<Rightarrow> ('k \<times> 'v) list" where
  "sort_entries lt m = foldr (insert_entry lt) m []"

text \<open>
  The text of a value under the verb \<^verbatim>\<open>%v\<close>.  The entries of a map are printed first,
  each with its key, and then put in the order of the keys.
\<close>

fun join_sp :: "string list \<Rightarrow> string" where
  "join_sp [] = []"
| "join_sp [x] = x"
| "join_sp (x # y # ys) = x @ '' '' @ join_sp (y # ys)"

fun Sprintf_v :: "iface \<Rightarrow> string" where
  "Sprintf_v VNil = ''<nil>''"
| "Sprintf_v (VBool b) = (if b then ''true'' else ''false'')"
| "Sprintf_v (VInt k i) = Itoa i"
| "Sprintf_v (VFloat k txt) = txt"
| "Sprintf_v (VString s) = s"
| "Sprintf_v (VMapStringString m) =
     ''map['' @ join_sp (map snd (sort_entries str_less
        (map (\<lambda>kv. (fst kv, fst kv @ '':'' @ snd kv)) m))) @ '']''"
| "Sprintf_v (VMapStringInt m) =
     ''map['' @ join_sp (map snd (sort_entries str_less
        (map (\<lambda>kv. (fst kv, fst kv @ '':'' @ Itoa (snd kv))) m))) @ '']''"
| "Sprintf_v (VMapStringAny m) =
     ''map['' @ join_sp (map snd (sort_entries str_less
        (map (\<lambda>kv. (fst kv, fst kv @ '':'' @ Sprintf_v (snd kv))) m))) @ '']''"
| "Sprintf_v (VMapAnyAny m) =
     ''map['' @ join_sp (map snd (sort_entries key_less
        (map (\<lambda>kv. (fst kv, Sprintf_v (fst kv) @ '':'' @ Sprintf_v (snd kv))) m))) @ '']''"
| "Sprintf_v (VSliceInt xs) = ''['' @ join_sp (map Itoa xs) @ '']''"
| "Sprintf_v (VSliceString xs) = ''['' @ join_sp xs @ '']''"
| "Sprintf_v (VSliceAny xs) = ''['' @ join_sp (map Sprintf_v xs) @ '']''"

section \<open>The Config instance\<close>

text \<open>
  The fields of \<^verbatim>\<open>Config\<close> that the two files read and write: the options, the Value
  Store \<^verbatim>\<open>c.data\<close> and the three caches.  A nil map and an empty map are both the empty
  list (the code tells them apart only to allocate).  The lock and the error list that
  \<^verbatim>\<open>addError\<close> appends to belong to code outside the two files and decide no returned
  value; they are left out.
\<close>

record Options =
  Readonly :: bool
  EnableCache :: bool
  ParseEnv :: bool

record Config =
  opts :: Options
  data :: "(string \<times> iface) list"
  strCache :: "(string \<times> string) list"
  sArrCache :: "(string \<times> string list) list"
  sMapCache :: "(string \<times> (string \<times> string) list) list"

section \<open>Path resolution: Get\<close>

definition formatKey :: "string \<Rightarrow> string" where
  "formatKey key = Trim (TrimSpace key) ''.''"

text \<open>Indexing a slice, \<^verbatim>\<open>typeData[i]\<close>: Go panics unless \<open>0 \<le> i < len\<close>.\<close>

definition index :: "'a list \<Rightarrow> int \<Rightarrow> 'a go" where
  "index xs i = (if 0 \<le> i \<and> i < int (length xs) then Inr (xs ! nat i) else Inl IndexOutOfRange)"

text \<open>
  The loop \<^verbatim>\<open>for _, k := range keys[1:]\<close> of \<^verbatim>\<open>Get\<close> in \<^verbatim>\<open>part_000\<close>.
  Every failing \<^verbatim>\<open>return\<close> in it is a bare one: it returns the named result
  \<^verbatim>\<open>value\<close>, which is still nil from the failed top-level lookup, and \<^verbatim>\<open>ok\<close>, which
  the branch has just set to false.  The guard of the three slice cases is
  \<^verbatim>\<open>err != nil || len(typeData) < i\<close>.
\<close>

fun Get_loop :: "iface \<Rightarrow> string list \<Rightarrow> (iface \<times> bool) go" where
  "Get_loop item [] = Inr (item, True)"
| "Get_loop item (k # ks) =
     (case item of
        VMapStringString typeData \<Rightarrow>
          (case map_of typeData k of
             None \<Rightarrow> Inr (VNil, False)
           | Some s \<Rightarrow> Get_loop (VString s) ks)
      | VMapStringAny typeData \<Rightarrow>
          (case map_of typeData k of
             None \<Rightarrow> Inr (VNil, False)
           | Some v \<Rightarrow> Get_loop v ks)
      | VMapAnyAny typeData \<Rightarrow>
          (case map_of typeData (VString k) of
             None \<Rightarrow> Inr (VNil, False)
           | Some v \<Rightarrow> Get_loop v ks)
      | VSliceInt typeData \<Rightarrow>
          (case Atoi k of
             None \<Rightarrow> Inr (VNil, False)
           | Some i \<Rightarrow>
               if int (length typeData) < i then Inr (VNil, False)
               else (case index typeData i of
                       Inl f \<Rightarrow> Inl f
                     | Inr x \<Rightarrow> Get_loop (VInt KInt x) ks))
      | VSliceString typeData \<Rightarrow>
          (case Atoi k of
             None \<Rightarrow> Inr (VNil, False)
           | Some i \<Rightarrow>
               if int (length typeData) < i then Inr (VNil, False)
               else (case index typeData i of
                       Inl f \<Rightarrow> Inl f
                     | Inr x \<Rightarrow> Get_loop (VString x) ks))
      | VSliceAny typeData \<Rightarrow>
          (case Atoi k of
             None \<Rightarrow> Inr (VNil, False)
           | Some i \<Rightarrow>
               if int (length typeData) < i then Inr (VNil, False)
               else (case index typeData i of
                       Inl f \<Rightarrow> Inl f
                     | Inr x \<Rightarrow> Get_loop x ks))
      | _ \<Rightarrow> Inr (VNil, False))"

text \<open>
  \<^verbatim>\<open>Get(key, findByPath...)\<close> of \<^verbatim>\<open>part_000\<close>.  \<^verbatim>\<open>keys[0]\<close> is an
  indexing like any other; \<^verbatim>\<open>strings.Split\<close> never returns an empty slice, so that
  branch is never taken.
\<close>

definition Get :: "Config \<Rightarrow> string \<Rightarrow> bool list \<Rightarrow> (iface \<times> bool) go" where
  "Get c key0 findByPath =
     (let key = formatKey key0 in
      if key = [] then Inr (VNil, False)
      else case map_of (data c) key of
        Some v \<Rightarrow> Inr (v, True)
      | None \<Rightarrow>
          if (case findByPath of b # _ \<Rightarrow> \<not> b | [] \<Rightarrow> False) then Inr (VNil, False)
          else if \<not> Contains key CHR ''.'' then Inr (VNil, False)
          else (case Split key CHR ''.'' of
                  [] \<Rightarrow> Inl IndexOutOfRange
                | topK # rest \<Rightarrow>
                    (case map_of (data c) topK of
                       None \<Rightarrow> Inr (VNil, False)
                     | Some item \<Rightarrow> Get_loop item rest)))"

text \<open>
  The same loop in \<^verbatim>\<open>config_get.go\<close>.  It knows the three generic shapes only.  In the
  slice case the two failing returns are bare and the branch does not touch \<^verbatim>\<open>ok\<close>,
  which is true there (the lookup before it succeeded): they return \<^verbatim>\<open>(nil, true)\<close>.
\<close>

fun config_get_Get_loop :: "iface \<Rightarrow> string list \<Rightarrow> (iface \<times> bool) go" where
  "config_get_Get_loop item [] = Inr (item, True)"
| "config_get_Get_loop item (k # ks) =
     (case item of
        VMapStringAny m \<Rightarrow>
          (case map_of m k of
             None \<Rightarrow> Inr (VNil, False)
           | Some v \<Rightarrow> config_get_Get_loop v ks)
      | VMapAnyAny m \<Rightarrow>
          (case map_of m (VString k) of
             None \<Rightarrow> Inr (VNil, False)
           | Some v \<Rightarrow> config_get_Get_loop v ks)
      | VSliceAny arrItem \<Rightarrow>
          (case Atoi k of
             None \<Rightarrow> Inr (VNil, True)
           | Some i \<Rightarrow>
               if int (length arrItem) < i then Inr (VNil, True)
               else (case index arrItem i of
                       Inl f \<Rightarrow> Inl f
                     | Inr x \<Rightarrow> config_get_Get_loop x ks))
      | _ \<Rightarrow> Inr (VNil, False))"

definition config_get_Get :: "Config \<Rightarrow> string \<Rightarrow> bool list \<Rightarrow> (iface \<times> bool) go" where
  "config_get_Get c key0 findByPath =
     (let key = Trim (TrimSpace key0) ''.'' in
      if key = [] then Inr (VNil, False)
      else case map_of (data c) key of
        Some v \<Rightarrow> Inr (v, True)
      | None \<Rightarrow>
          if (case findByPath of b # _ \<Rightarrow> \<not> b | [] \<Rightarrow> False) then Inr (VNil, False)
          else if \<not> Contains key CHR ''.'' then Inr (VNil, False)
          else (case Split key CHR ''.'' of
                  [] \<Rightarrow> Inl IndexOutOfRange
                | topK # rest \<Rightarrow>
                    (case map_of (data c) topK of
                       None \<Rightarrow> Inr (VNil, False)
                     | Some item \<Rightarrow> config_get_Get_loop item rest)))"

section \<open>Environment interpolation\<close>

text \<open>
  \<^verbatim>\<open>envRegex\<close> is \<^verbatim>\<open>\${([\w-| ]+)}\<close>: a dollar sign, an opening brace, one or more
  characters out of letters, digits, underscore, hyphen, bar and space, and a closing
  brace.  The closing brace is not in the class, so a match at a position takes the whole
  run of class characters and needs the brace right after it.
\<close>

definition is_env_char :: "char \<Rightarrow> bool" where
  "is_env_char c =
     (c \<in> set (''0123456789abcdefghijklmnopqrstuvwxyzABCDEFGHIJKLMNOPQRSTUVWXYZ_'' @ ''-| ''))"

text \<open>A match of the expression at the start of the string: the matched text and the rest.\<close>

definition envRegex_match :: "string \<Rightarrow> (string \<times> string) option" where
  "envRegex_match s =
     (case strip_prefix ''${'' s of
        None \<Rightarrow> None
      | Some r \<Rightarrow>
          (case dropWhile is_env_char r of
             [] \<Rightarrow> None
           | c # rest \<Rightarrow>
               if takeWhile is_env_char r \<noteq> [] \<and> c = CHR ''}''
               then Some (''${'' @ takeWhile is_env_char r @ ''}'', rest)
               else None))"

lemma envRegex_match_shorter:
  assumes "envRegex_match s = Some (m, rest)"
  shows "length rest < length s"
proof -
  from assms obtain r where r: "strip_prefix ''${'' s = Some r"
    by (auto simp: envRegex_match_def split: option.splits)
  with assms obtain c where "dropWhile is_env_char r = c # rest"
    by (auto simp: envRegex_match_def split: option.splits list.splits if_splits)
  then have "length rest < length (dropWhile is_env_char r)" by simp
  also have "\<dots> \<le> length r" by (rule length_dropWhile_le)
  also from r have "\<dots> \<le> length s" using strip_prefix_length [of "''${''" s r] by simp
  finally show ?thesis .
qed

text \<open>\<^verbatim>\<open>envRegex.FindAllString(val, -1)\<close>: the matches from left to right, the search
  going on after each match.\<close>

function FindAllString :: "string \<Rightarrow> string list" where
  "FindAllString s =
     (case s of
        [] \<Rightarrow> []
      | c # cs \<Rightarrow>
          (case envRegex_match s of
             Some (m, rest) \<Rightarrow> m # FindAllString rest
           | None \<Rightarrow> FindAllString cs))"
  by pat_completeness auto
termination
  by (relation "measure length") (auto dest: envRegex_match_shorter)

declare FindAllString.simps [simp del]

text \<open>
  \<^verbatim>\<open>strings.NewReplacer(oldNew...).Replace(val)\<close>: at each position from the left the
  first pair, in argument order, whose old string starts there is replaced by its new
  string and the scan goes on behind it.  The old strings of \<^verbatim>\<open>parseEnvValue\<close> are
  tokens, never empty; an empty old string matches nowhere here.
\<close>

fun lookup_old :: "(string \<times> string) list \<Rightarrow> string \<Rightarrow> (string \<times> string) option" where
  "lookup_old [] s = None"
| "lookup_old ((old, new) # ps) s =
     (case (if old = [] then None else strip_prefix old s) of
        Some rest \<Rightarrow> Some (new, rest)
      | None \<Rightarrow> lookup_old ps s)"

lemma lookup_old_shorter:
  "lookup_old ps s = Some (new, rest) \<Longrightarrow> length rest < length s"
proof (induction ps)
  case Nil
  then show ?case by simp
next
  case (Cons p ps)
  obtain old new' where p: "p = (old, new')" by (cases p)
  show ?case
  proof (cases "old \<noteq> [] \<and> strip_prefix old s \<noteq> None")
    case True
    then obtain r where r: "strip_prefix old s = Some r" by auto
    with True Cons.prems p have "r = rest" by simp
    with r True strip_prefix_length [of old s r] show ?thesis by (cases old) auto
  next
    case False
    with Cons p show ?thesis by (auto split: if_splits)
  qed
qed

function Replace :: "(string \<times> string) list \<Rightarrow> string \<Rightarrow> string" where
  "Replace oldNew s =
     (case s of
        [] \<Rightarrow> []
      | c # cs \<Rightarrow>
          (case lookup_old oldNew s of
             Some (new, rest) \<Rightarrow> new @ Replace oldNew rest
           | None \<Rightarrow> c # Replace oldNew cs))"
  by pat_completeness auto
termination
  by (relation "measure (\<lambda>(oldNew, s). length s)") (auto dest: lookup_old_shorter)

declare Replace.simps [simp del]

text \<open>\<^verbatim>\<open>strings.Index(s, sub) != -1\<close>.\<close>

fun has_substring :: "string \<Rightarrow> string \<Rightarrow> bool" where
  "has_substring sub [] = (sub = [])"
| "has_substring sub (c # cs) = (strip_prefix sub (c # cs) \<noteq> None \<or> has_substring sub cs)"

text \<open>
  The body of the loop over the matches: the name and the default of a token
  \<^verbatim>\<open>fVar\<close>, and the pair appended to \<^verbatim>\<open>oldNew\<close>.  \<^verbatim>\<open>os.Getenv\<close> is the parameter
  \<open>getenv\<close>; it returns the empty string for a variable that is not set.
\<close>

definition env_name_default :: "string \<Rightarrow> string \<times> string" where
  "env_name_default fVar =
     (case SplitN2 (butlast (drop 2 fVar)) CHR ''|'' of
        [a, b] \<Rightarrow> (TrimSpace a, TrimSpace b)
      | a # _ \<Rightarrow> (a, fVar)
      | [] \<Rightarrow> ([], fVar))"

definition env_value :: "(string \<Rightarrow> string) \<Rightarrow> string \<Rightarrow> string" where
  "env_value getenv fVar =
     (case env_name_default fVar of (name, def) \<Rightarrow>
        if getenv name = [] then def else getenv name)"

definition parseEnvValue :: "(string \<Rightarrow> string) \<Rightarrow> string \<Rightarrow> string" where
  "parseEnvValue getenv val =
     (if \<not> has_substring ''${'' val then val
      else if FindAllString val = [] then val
      else Replace (map (\<lambda>fVar. (fVar, env_value getenv fVar)) (FindAllString val)) val)"

section \<open>The typed accessors of part\_000\<close>

text \<open>
  An accessor that writes a cache returns the configuration with it.  A bare
  \<^verbatim>\<open>return\<close> returns the named results as they stand, the zero value where nothing
  was assigned.
\<close>

text \<open>The type switch of \<^verbatim>\<open>String\<close>: the \<^verbatim>\<open>value\<close> and the \<^verbatim>\<open>ok\<close> it leaves.  Its
  case list names every integer type but \<^verbatim>\<open>uint32\<close>.\<close>

definition String_switch :: "(string \<Rightarrow> string) \<Rightarrow> Config \<Rightarrow> iface \<Rightarrow> string \<times> bool" where
  "String_switch getenv c val =
     (case val of
        VBool b \<Rightarrow> (Sprintf_v val, True)
      | VInt k i \<Rightarrow>
          if k \<in> set [KInt, KUint, KInt8, KUint8, KInt16, KUint16, KInt32, KUint64, KInt64]
          then (Sprintf_v val, True) else ([], False)
      | VFloat k txt \<Rightarrow> (Sprintf_v val, True)
      | VString s \<Rightarrow>
          (if ParseEnv (opts c) then parseEnvValue getenv (Sprintf_v val) else Sprintf_v val, True)
      | _ \<Rightarrow> ([], False))"

definition String :: "(string \<Rightarrow> string) \<Rightarrow> Config \<Rightarrow> string \<Rightarrow> ((string \<times> bool) \<times> Config) go" where
  "String getenv c key =
     (case (if EnableCache (opts c) \<and> strCache c \<noteq> [] then map_of (strCache c) key else None) of
        Some value \<Rightarrow> Inr ((value, True), c)
      | None \<Rightarrow>
          (case Get c key [] of
             Inl f \<Rightarrow> Inl f
           | Inr (val, found) \<Rightarrow>
               if \<not> found then Inr (([], False), c)
               else
                 (case String_switch getenv c val of
                    (value, ok) \<Rightarrow>
                      Inr ((value, ok),
                           if ok \<and> EnableCache (opts c)
                           then c\<lparr>strCache := AList.update key value (strCache c)\<rparr>
                           else c))))"

definition Int_acc :: "(string \<Rightarrow> string) \<Rightarrow> Config \<Rightarrow> string \<Rightarrow> ((int \<times> bool) \<times> Config) go" where
  "Int_acc getenv c key =
     (case String getenv c key of
        Inl f \<Rightarrow> Inl f
      | Inr ((rawVal, ok), c') \<Rightarrow>
          if \<not> ok then Inr ((0, False), c')
          else (case Atoi rawVal of
                  Some value \<Rightarrow> Inr ((value, True), c')
                | None \<Rightarrow> Inr ((0, False), c')))"

text \<open>\<^verbatim>\<open>int64(intVal)\<close> keeps the number: \<^verbatim>\<open>int\<close> is at most 64 bits wide.\<close>

definition Int64 :: "(string \<Rightarrow> string) \<Rightarrow> Config \<Rightarrow> string \<Rightarrow> ((int \<times> bool) \<times> Config) go" where
  "Int64 getenv c key =
     (case Int_acc getenv c key of
        Inl f \<Rightarrow> Inl f
      | Inr ((intVal, ok), c') \<Rightarrow>
          if ok then Inr ((intVal, True), c') else Inr ((0, False), c'))"

text \<open>The loop of \<^verbatim>\<open>Ints\<close> over a \<^verbatim>\<open>[]interface{}\<close>; \<open>arr\<close> is the named result
  that \<^verbatim>\<open>append\<close> grows, and the failing \<^verbatim>\<open>return\<close> is a bare one.\<close>

fun Ints_loop :: "iface list \<Rightarrow> int list \<Rightarrow> int list \<times> bool" where
  "Ints_loop [] arr = (arr, True)"
| "Ints_loop (v # vs) arr =
     (case Atoi (Sprintf_v v) of
        None \<Rightarrow> (arr, False)
      | Some iv \<Rightarrow> Ints_loop vs (arr @ [iv]))"

definition Ints :: "Config \<Rightarrow> string \<Rightarrow> (int list \<times> bool) go" where
  "Ints c key =
     (case Get c key [] of
        Inl f \<Rightarrow> Inl f
      | Inr (rawVal, ok) \<Rightarrow>
          if \<not> ok then Inr ([], False)
          else (case rawVal of
                  VSliceInt typeData \<Rightarrow> Inr (typeData, True)
                | VSliceAny typeData \<Rightarrow> Inr (Ints_loop typeData [])
                | _ \<Rightarrow> Inr ([], False)))"





text \<open>
  \<^verbatim>\<open>Structure(key, v)\<close>.  \<^verbatim>\<open>JSONEncoder\<close> and \<^verbatim>\<open>JSONDecoder\<close> are package variables
  set elsewhere; they are parameters here.  The encoder returns an error or a blob; the
  decoder returns its error, if any, and the target as it has left it.  Inside
  \<^verbatim>\<open>if ok { ... }\<close> the declaration \<^verbatim>\<open>blob, err := JSONEncoder(data)\<close> makes a new
  \<^verbatim>\<open>err\<close>; \<^verbatim>\<open>err = JSONDecoder(blob, v)\<close> assigns to that one, and the final bare
  \<^verbatim>\<open>return\<close> returns the named result \<^verbatim>\<open>err\<close>, which nothing has assigned.
\<close>

definition Structure ::
  "(iface \<Rightarrow> 'e + 'b) \<Rightarrow> ('b \<Rightarrow> 't \<Rightarrow> 'e option \<times> 't) \<Rightarrow> Config \<Rightarrow> string \<Rightarrow> 't \<Rightarrow> ('e option \<times> 't) go" where
  "Structure JSONEncoder JSONDecoder c key v =
     (case (if key = [] then Inr (VMapStringAny (data c), True) else Get c key []) of
        Inl f \<Rightarrow> Inl f
      | Inr (d, ok) \<Rightarrow>
          if ok then
            (case JSONEncoder d of
               Inl err \<Rightarrow> Inr (Some err, v)
             | Inr blob \<Rightarrow> (case JSONDecoder blob v of (err, v') \<Rightarrow> Inr (None, v')))
          else Inr (None, v))"

section \<open>The accessors of config\_get.go\<close>

text \<open>
  \<^verbatim>\<open>GetString\<close> has no cache.  With \<^verbatim>\<open>ParseEnv\<close> it reads a value that starts with
  \<^verbatim>\<open>${\<close> as one token: the cutset \<^verbatim>\<open>"${}"\<close> is trimmed off both ends, and without a
  default \<^verbatim>\<open>def\<close> stays empty.
\<close>

definition GetString :: "(string \<Rightarrow> string) \<Rightarrow> Config \<Rightarrow> string \<Rightarrow> (string \<times> bool) go" where
  "GetString getenv c key =
     (case config_get_Get c key [] of
        Inl f \<Rightarrow> Inl f
      | Inr (val, found) \<Rightarrow>
          if \<not> found then Inr ([], False)
          else Inr
            (case val of
               VBool b \<Rightarrow> (Sprintf_v val, True)
             | VInt k i \<Rightarrow> if k \<in> set [KInt, KInt64] then (Sprintf_v val, True) else ([], False)
             | VString s \<Rightarrow>
                 (if ParseEnv (opts c) \<and> strip_prefix ''${'' s \<noteq> None then
                    (case (case SplitN2 (Trim (TrimSpace s) ''${}'') CHR ''|'' of
                             [a, b] \<Rightarrow> (TrimSpace a, TrimSpace b)
                           | a # _ \<Rightarrow> (a, [])
                           | [] \<Rightarrow> ([], [])) of
                       (name, def) \<Rightarrow> if getenv name = [] then def else getenv name)
                  else s, True)
             | _ \<Rightarrow> ([], False)))"

text \<open>In \<^verbatim>\<open>GetInt\<close> the return after a failed \<^verbatim>\<open>Atoi\<close> is bare, with \<^verbatim>\<open>ok\<close> still
  true from \<^verbatim>\<open>GetString\<close>.\<close>

definition GetInt :: "(string \<Rightarrow> string) \<Rightarrow> Config \<Rightarrow> string \<Rightarrow> (int \<times> bool) go" where
  "GetInt getenv c key =
     (case GetString getenv c key of
        Inl f \<Rightarrow> Inl f
      | Inr (rawVal, ok) \<Rightarrow>
          if \<not> ok then Inr (0, False)
          else (case Atoi rawVal of
                  Some value \<Rightarrow> Inr (value, True)
                | None \<Rightarrow> Inr (0, ok)))"

text \<open>
  In \<^verbatim>\<open>GetInt64\<close> the \<^verbatim>\<open>ok\<close> of \<^verbatim>\<open>if intVal, ok := c.GetInt(key); ok\<close> is a new
  variable of the \<^verbatim>\<open>if\<close> statement.  The named result \<^verbatim>\<open>ok\<close> is never assigned and
  the bare \<^verbatim>\<open>return\<close> returns it as false.
\<close>

definition GetInt64 :: "(string \<Rightarrow> string) \<Rightarrow> Config \<Rightarrow> string \<Rightarrow> (int \<times> bool) go" where
  "GetInt64 getenv c key =
     (case GetInt getenv c key of
        Inl f \<Rightarrow> Inl f
      | Inr (intVal, ok) \<Rightarrow> Inr (if ok then intVal else 0, False))"

definition GetIntArr :: "Config \<Rightarrow> string \<Rightarrow> (int list \<times> bool) go" where
  "GetIntArr c key =
     (case config_get_Get c key [] of
        Inl f \<Rightarrow> Inl f
      | Inr (rawVal, ok) \<Rightarrow>
          if \<not> ok then Inr ([], False)
          else (case rawVal of
                  VSliceAny xs \<Rightarrow> Inr (Ints_loop xs [])
                | _ \<Rightarrow> Inr ([], False)))"

text \<open>\<^verbatim>\<open>GetStructure\<close>, with \<^verbatim>\<open>json.Marshal\<close> and \<^verbatim>\<open>json.Unmarshal\<close> as parameters;
  its \<^verbatim>\<open>err\<close> is shadowed in the same way.\<close>

definition GetStructure ::
  "(iface \<Rightarrow> 'e + 'b) \<Rightarrow> ('b \<Rightarrow> 't \<Rightarrow> 'e option \<times> 't) \<Rightarrow> Config \<Rightarrow> string \<Rightarrow> 't \<Rightarrow> ('e option \<times> 't) go" where
  "GetStructure Marshal Unmarshal c key v =
     (case config_get_Get c key [] of
        Inl f \<Rightarrow> Inl f
      | Inr (rawVal, ok) \<Rightarrow>
          if ok then
            (case Marshal rawVal of
               Inl err \<Rightarrow> Inr (Some err, v)
             | Inr blob \<Rightarrow> (case Unmarshal blob v of (err, v') \<Rightarrow> Inr (None, v')))
          else Inr (None, v))"

section \<open>Properties of path resolution\<close>

subsection \<open>What one step of the loop does on a sequence\<close>

text \<open>A configuration with the given options and store, and empty caches.\<close>

definition new_config :: "bool \<Rightarrow> bool \<Rightarrow> (string \<times> iface) list \<Rightarrow> Config" where
  "new_config cache parse d =
     \<lparr>opts = \<lparr>Readonly = False, EnableCache = cache, ParseEnv = parse\<rparr>,
      data = d, strCache = [], sArrCache = [], sMapCache = []\<rparr>"

lemma Get_loop_slice_parse_failure:
  "Atoi k = None \<Longrightarrow> Get_loop (VSliceAny xs) (k # ks) = Inr (VNil, False)"
  by simp

lemma Get_loop_slice_beyond_length:
  "Atoi k = Some i \<Longrightarrow> int (length xs) < i \<Longrightarrow>
   Get_loop (VSliceAny xs) (k # ks) = Inr (VNil, False)"
  by simp

lemma Get_loop_slice_descends:
  "Atoi k = Some i \<Longrightarrow> 0 \<le> i \<Longrightarrow> i < int (length xs) \<Longrightarrow>
   Get_loop (VSliceAny xs) (k # ks) = Get_loop (xs ! nat i) ks"
  by (simp add: index_def)

lemma Get_loop_slice_panics:
  "Atoi k = Some i \<Longrightarrow> i = int (length xs) \<or> i < 0 \<Longrightarrow>
   Get_loop (VSliceAny xs) (k # ks) = Inl IndexOutOfRange"
  by (auto simp: index_def)

lemma Get_loop_typed_slice_descends:
  "Atoi k = Some i \<Longrightarrow> 0 \<le> i \<Longrightarrow> i < int (length ns) \<Longrightarrow>
   Get_loop (VSliceInt ns) (k # ks) = Get_loop (VInt KInt (ns ! nat i)) ks"
  "Atoi k = Some i \<Longrightarrow> 0 \<le> i \<Longrightarrow> i < int (length ss) \<Longrightarrow>
   Get_loop (VSliceString ss) (k # ks) = Get_loop (VString (ss ! nat i)) ks"
  by (simp_all add: index_def)

lemma Get_loop_map_descends:
  "map_of m1 k = Some s \<Longrightarrow> Get_loop (VMapStringString m1) (k # ks) = Get_loop (VString s) ks"
  "map_of m2 k = Some v \<Longrightarrow> Get_loop (VMapStringAny m2) (k # ks) = Get_loop v ks"
  "map_of m3 (VString k) = Some v \<Longrightarrow> Get_loop (VMapAnyAny m3) (k # ks) = Get_loop v ks"
  by simp_all

lemma Get_loop_typed_int_map:
  "Get_loop (VMapStringInt m) (k # ks) = Inr (VNil, False)"
  by simp

text \<open>
  Claim C2.  A segment that addresses a sequence of length \<open>n\<close> with the index \<open>n\<close>
  should make Get fail with \<open>ok = false\<close>.  The guard \<^verbatim>\<open>len(typeData) < i\<close> lets
  \<open>i = n\<close> through: on a sequence of three elements the path \<^verbatim>\<open>arr.3\<close> reaches
  \<^verbatim>\<open>typeData[3]\<close> and the program panics, in both source files.  In
  \<^verbatim>\<open>config_get.go\<close> a segment that is not a number, and an index beyond the length,
  return \<^verbatim>\<open>(nil, true)\<close> instead of \<open>ok = false\<close>.
\<close>

theorem Get_index_equal_to_length:
  "Get (new_config False False [(''arr'', VSliceAny [VInt KInt 1, VInt KInt 2, VInt KInt 3])])
       ''arr.3'' [] = Inl IndexOutOfRange
   \<and> config_get_Get (new_config False False [(''arr'', VSliceAny [VInt KInt 1, VInt KInt 2, VInt KInt 3])])
       ''arr.3'' [] = Inl IndexOutOfRange
   \<and> config_get_Get (new_config False False [(''arr'', VSliceAny [VInt KInt 1, VInt KInt 2, VInt KInt 3])])
       ''arr.x'' [] = Inr (VNil, True)
   \<and> config_get_Get (new_config False False [(''arr'', VSliceAny [VInt KInt 1, VInt KInt 2, VInt KInt 3])])
       ''arr.7'' [] = Inr (VNil, True)"
  by code_simp

text \<open>
  Claim C3.  Get should descend through a string-keyed typed map of integers
  (\<^verbatim>\<open>map[string]int\<close>, which \<^verbatim>\<open>IntMap\<close> expects in the store "from Set").  The type
  switch of the loop has no case for it: the path \<^verbatim>\<open>m.a\<close> into
  \<^verbatim>\<open>map[string]int{"a": 1}\<close> ends in the default branch, \<open>ok = false\<close>
  (\<open>Get_loop_typed_int_map\<close>).  The same path into a \<^verbatim>\<open>map[string]string\<close> descends,
  as the loop does for the other five shapes (\<open>Get_loop_map_descends\<close>,
  \<open>Get_loop_slice_descends\<close>, \<open>Get_loop_typed_slice_descends\<close>).  \<^verbatim>\<open>config_get.go\<close> has none of the
  typed shapes.
\<close>

theorem Get_typed_int_map_not_descended:
  "Get (new_config False False [(''m'', VMapStringInt [(''a'', 1)])]) ''m.a'' [] = Inr (VNil, False)
   \<and> Get (new_config False False [(''m'', VMapStringString [(''a'', ''1'')])]) ''m.a'' []
       = Inr (VString ''1'', True)
   \<and> config_get_Get (new_config False False [(''m'', VMapStringString [(''a'', ''1'')])]) ''m.a'' []
       = Inr (VNil, False)"
  by code_simp

text \<open>
  Claim C1.  No accessor should ever cause a run-time fault.  The index guard of Get lets
  an index equal to the length, and every negative index, reach the slice: Get and the
  accessors built on it panic.  Here \<^verbatim>\<open>names\<close> is a \<^verbatim>\<open>[]string\<close> of two elements and
  \<^verbatim>\<open>list\<close> a \<^verbatim>\<open>[]interface{}\<close> of two.
\<close>

theorem accessors_panic_on_index:
  "Get (new_config False False [(''names'', VSliceString [''a'', ''b''])]) ''names.-1'' []
     = Inl IndexOutOfRange
   \<and> String (\<lambda>n. []) (new_config False False [(''names'', VSliceString [''a'', ''b''])]) ''names.2''
     = Inl IndexOutOfRange
   \<and> Int64 (\<lambda>n. []) (new_config False False [(''list'', VSliceAny [VInt KInt 1, VInt KInt 2])]) ''list.2''
     = Inl IndexOutOfRange
   \<and> Ints (new_config False False [(''list'', VSliceAny [VInt KInt 1, VInt KInt 2])]) ''list.-1''
     = Inl IndexOutOfRange
   \<and> GetString (\<lambda>n. []) (new_config False False [(''list'', VSliceAny [VInt KInt 1, VInt KInt 2])]) ''list.2''
     = Inl IndexOutOfRange
   \<and> GetIntArr (new_config False False [(''list'', VSliceAny [VInt KInt 1, VInt KInt 2])]) ''list.-1''
     = Inl IndexOutOfRange"
  by code_simp

section \<open>Properties of the accessors\<close>

subsection \<open>Integer and 64-bit integer\<close>

lemma Int64_of_Int_found:
  "Int_acc getenv c key = Inr ((v, True), c') \<Longrightarrow> Int64 getenv c key = Inr ((v, True), c')"
  by (simp add: Int64_def)

lemma Int64_of_Int_not_found:
  "Int_acc getenv c key = Inr ((v, False), c') \<Longrightarrow> Int64 getenv c key = Inr ((0, False), c')"
  by (simp add: Int64_def)

lemma GetInt64_never_ok:
  "GetInt64 getenv c key = Inr (v, ok) \<Longrightarrow> \<not> ok"
  by (auto simp: GetInt64_def split: sum.splits prod.splits)

text \<open>
  Claim C8.  Whenever the integer accessor returns \<open>(v, true)\<close> the 64-bit accessor
  should return \<open>(int64(v), true)\<close>.  \<^verbatim>\<open>Int64\<close> of \<^verbatim>\<open>part_000\<close> does
  (\<open>Int64_of_Int_found\<close>, \<open>Int64_of_Int_not_found\<close>).  \<^verbatim>\<open>GetInt64\<close> of
  \<^verbatim>\<open>config_get.go\<close> never returns \<open>ok = true\<close>: for the stored integer 42,
  \<^verbatim>\<open>GetInt\<close> returns \<open>(42, true)\<close> and \<^verbatim>\<open>GetInt64\<close> returns \<open>(42, false)\<close>.
\<close>

theorem GetInt64_loses_ok:
  "GetInt (\<lambda>n. []) (new_config False False [(''port'', VInt KInt 42)]) ''port'' = Inr (42, True)
   \<and> GetInt64 (\<lambda>n. []) (new_config False False [(''port'', VInt KInt 42)]) ''port'' = Inr (42, False)
   \<and> Int64 (\<lambda>n. []) (new_config False False [(''port'', VInt KInt 42)]) ''port''
       = Inr ((42, True), new_config False False [(''port'', VInt KInt 42)])"
  by code_simp

subsection \<open>Integer sequence\<close>

text \<open>The loop returns what it had parsed when it met the first element that does not
  parse, and says whether all elements parsed.\<close>

definition parses :: "iface \<Rightarrow> bool" where
  "parses v = (Atoi (Sprintf_v v) \<noteq> None)"

lemma Ints_loop_eq:
  "Ints_loop xs arr =
     (arr @ map (\<lambda>v. the (Atoi (Sprintf_v v))) (takeWhile parses xs), list_all parses xs)"
  by (induction xs arbitrary: arr) (auto simp: parses_def split: option.splits)

text \<open>
  Claim C7, as the code has it.  When some element of the heterogeneous sequence does not
  print as an integer, \<^verbatim>\<open>Ints\<close> and \<^verbatim>\<open>GetIntArr\<close> return \<open>ok = false\<close> together with
  the integers of the elements before the first such element, in their order, and
  nothing of that element or the ones after it.
\<close>

theorem Ints_failure_keeps_parsed_prefix:
  "(Get c key [] = Inr (VSliceAny xs, True) \<and> \<not> list_all parses xs \<longrightarrow>
      Ints c key = Inr (map (\<lambda>v. the (Atoi (Sprintf_v v))) (takeWhile parses xs), False))
   \<and> (config_get_Get c key [] = Inr (VSliceAny xs, True) \<and> \<not> list_all parses xs \<longrightarrow>
      GetIntArr c key = Inr (map (\<lambda>v. the (Atoi (Sprintf_v v))) (takeWhile parses xs), False))"
  by (simp add: Ints_def GetIntArr_def Ints_loop_eq)

theorem Ints_failure_keeps_parsed_prefix_witness:
  "Ints (new_config False False [(''ids'', VSliceAny [VInt KInt 1, VFloat KFloat64 ''2'', VString ''x'', VInt KInt 4])])
        ''ids'' = Inr ([1, 2], False)
   \<and> GetIntArr (new_config False False [(''ids'', VSliceAny [VInt KInt 1, VFloat KFloat64 ''2'', VString ''x'', VInt KInt 4])])
        ''ids'' = Inr ([1, 2], False)"
proof -
  let ?xs = "[VInt KInt 1, VFloat KFloat64 ''2'', VString ''x'', VInt KInt 4]"
  let ?c = "new_config False False [(''ids'', VSliceAny ?xs)]"
  have g: "Get ?c ''ids'' [] = Inr (VSliceAny ?xs, True)" by code_simp
  have g': "config_get_Get ?c ''ids'' [] = Inr (VSliceAny ?xs, True)" by code_simp
  have n: "\<not> list_all parses ?xs" by code_simp
  have m: "map (\<lambda>v. the (Atoi (Sprintf_v v))) (takeWhile parses ?xs) = [1, 2]" by code_simp
  from Ints_failure_keeps_parsed_prefix [of ?c "''ids''" ?xs] g g' n m show ?thesis by simp
qed

text \<open>
  Claim C7, as stated: the returned sequence would be empty.  For the sequence
  \<^verbatim>\<open>[1, "x"]\<close> both accessors return \<^verbatim>\<open>[1]\<close> with \<open>ok = false\<close>.
\<close>

theorem Ints_partial_result_counterexample:
  "Ints (new_config False False [(''ids'', VSliceAny [VInt KInt 1, VString ''x''])]) ''ids''
     = Inr ([1], False)
   \<and> GetIntArr (new_config False False [(''ids'', VSliceAny [VInt KInt 1, VString ''x''])]) ''ids''
     = Inr ([1], False)"
  by code_simp

subsection \<open>Structure mapping\<close>

lemma Structure_encode_error:
  "key \<noteq> [] \<Longrightarrow> Get c key [] = Inr (d, True) \<Longrightarrow> enc d = Inl e \<Longrightarrow>
   Structure enc dec c key v = Inr (Some e, v)"
  by (simp add: Structure_def)

lemma Structure_decode_error:
  "key \<noteq> [] \<Longrightarrow> Get c key [] = Inr (d, True) \<Longrightarrow> enc d = Inr blob \<Longrightarrow>
   Structure enc dec c key v = Inr (None, snd (dec blob v))"
  by (simp add: Structure_def split: prod.splits)

lemma GetStructure_decode_error:
  "config_get_Get c key [] = Inr (d, True) \<Longrightarrow> enc d = Inr blob \<Longrightarrow>
   GetStructure enc dec c key v = Inr (None, snd (dec blob v))"
  by (simp add: GetStructure_def split: prod.splits)

text \<open>
  Claim C4.  A failure of the decoder should come back as a non-nil error.  The error of
  \<^verbatim>\<open>JSONDecoder\<close> is assigned to the \<^verbatim>\<open>err\<close> declared inside the \<^verbatim>\<open>if\<close> block, and
  the function returns the outer one, nil (\<open>Structure_decode_error\<close>, whatever the
  decoder returns).  Here the store holds the string \<^verbatim>\<open>"x"\<close> under \<^verbatim>\<open>db\<close>, the encoder
  succeeds and the decoder fails with an error and leaves the target alone: both
  functions return no error.  An error of the encoder is returned.
\<close>

theorem Structure_drops_decode_error:
  "Structure (\<lambda>d. Inr (Sprintf_v d)) (\<lambda>blob v. (Some ''cannot unmarshal string'', v))
     (new_config False False [(''db'', VString ''x'')]) ''db'' (0::nat) = Inr (None, 0)
   \<and> GetStructure (\<lambda>d. Inr (Sprintf_v d)) (\<lambda>blob v. (Some ''cannot unmarshal string'', v))
     (new_config False False [(''db'', VString ''x'')]) ''db'' (0::nat) = Inr (None, 0)
   \<and> Structure (\<lambda>d. Inl ''unsupported type'') (\<lambda>blob::string. \<lambda>v. (None::string option, v))
     (new_config False False [(''db'', VString ''x'')]) ''db'' (0::nat) = Inr (Some ''unsupported type'', 0)"
  by code_simp

text \<open>
  Claim C10, as the code has it.  For a key other than the empty string that Get does
  not resolve, \<^verbatim>\<open>Structure\<close> returns a nil error and the target as it was; so does
  \<^verbatim>\<open>GetStructure\<close> for every key that its Get does not resolve, the empty string
  included.  (\<^verbatim>\<open>Structure\<close> does not pass the empty string to Get: it maps the whole
  store.)
\<close>

theorem Structure_unresolved_key:
  "(key \<noteq> [] \<and> Get c key [] = Inr (d, False) \<longrightarrow> Structure enc dec c key v = Inr (None, v))
   \<and> (config_get_Get c key [] = Inr (d, False) \<longrightarrow> GetStructure enc dec c key v = Inr (None, v))"
  by (simp add: Structure_def GetStructure_def)

theorem Structure_unresolved_key_witness:
  "Structure (\<lambda>d. Inr (Sprintf_v d)) (\<lambda>blob v. (None::string option, blob))
     (new_config False False [(''db'', VString ''x'')]) '' . '' ''target'' = Inr (None, ''target'')
   \<and> GetStructure (\<lambda>d. Inr (Sprintf_v d)) (\<lambda>blob v. (None::string option, blob))
     (new_config False False [(''db'', VString ''x'')]) '' . '' ''target'' = Inr (None, ''target'')"
proof -
  let ?c = "new_config False False [(''db'', VString ''x'')]"
  have k: "'' . '' \<noteq> ([]::string)" by simp
  have g: "Get ?c '' . '' [] = Inr (VNil, False)" by code_simp
  have g': "config_get_Get ?c '' . '' [] = Inr (VNil, False)" by code_simp
  from Structure_unresolved_key [of "'' . ''" ?c VNil "\<lambda>d. Inr (Sprintf_v d)" "\<lambda>blob v. (None, blob)" "''target''"]
    k g g'
  show ?thesis by simp
qed

text \<open>
  Claim C10, as stated: for every key that Get does not resolve the target is left
  alone.  Get does not resolve the empty key, yet \<^verbatim>\<open>Structure\<close> with the empty key
  encodes the whole store and decodes it into the target.  With a decoder that stores
  the blob in the target, the target changes.
\<close>

theorem Structure_empty_key_counterexample:
  "Get (new_config False False [(''db'', VString ''x'')]) [] [] = Inr (VNil, False)
   \<and> Structure (\<lambda>d. Inr (Sprintf_v d)) (\<lambda>blob v. (None::string option, blob))
        (new_config False False [(''db'', VString ''x'')]) [] ''target''
      = Inr (None, ''map[db:x]'')"
  by code_simp

subsection \<open>The result caches\<close>









text \<open>A call that fails leaves the configuration as it was: nothing is cached.\<close>

lemma String_failure_caches_nothing:
  "String getenv c key = Inr ((s, False), c') \<Longrightarrow> c' = c"
  unfolding String_def
  by (auto split: option.splits sum.splits prod.splits if_splits)





section \<open>Properties of environment interpolation\<close>

lemma strip_prefix_iff: "strip_prefix p s = Some r \<longleftrightarrow> s = p @ r"
  by (induction p s rule: strip_prefix.induct) auto

lemma strip_prefix_append [simp]: "strip_prefix p (p @ r) = Some r"
  by (simp add: strip_prefix_iff)


lemma not_env_char_brace [simp]: "\<not> is_env_char CHR ''}''" "\<not> is_env_char CHR ''$''" "\<not> is_env_char CHR ''{''"
  by (simp_all add: is_env_char_def)




text \<open>
  The substitution as the specification words it: one pass over the text from the left,
  each token replaced by its resolved value where it stands.  It is compared below with
  \<^verbatim>\<open>parseEnvValue\<close> of the source, which collects the tokens first and then runs a
  replacer over the text (\<open>parseEnvValue_interpolate\<close>).
\<close>

function interpolate :: "(string \<Rightarrow> string) \<Rightarrow> string \<Rightarrow> string" where
  "interpolate getenv s =
     (case s of
        [] \<Rightarrow> []
      | c # cs \<Rightarrow>
          (case envRegex_match s of
             Some (m, rest) \<Rightarrow> env_value getenv m @ interpolate getenv rest
           | None \<Rightarrow> c # interpolate getenv cs))"
  by pat_completeness auto
termination
  by (relation "measure (\<lambda>(getenv, s). length s)") (auto dest: envRegex_match_shorter)

declare interpolate.simps [simp del]

lemma interpolate_Nil [simp]: "interpolate getenv [] = []"
  by (simp add: interpolate.simps)

lemma envRegex_match_Nil [simp]: "envRegex_match [] = None"
  by (simp add: envRegex_match_def)



lemma FindAllString_Nil [simp]: "FindAllString [] = []"
  by (simp add: FindAllString.simps)



lemma Replace_Nil [simp]: "Replace oldNew [] = []"
  by (simp add: Replace.simps)



















text \<open>
  \<^verbatim>\<open>GetString\<close> of \<^verbatim>\<open>config_get.go\<close> on the same values: a value that is one token
  with a default resolves in the same way; a token without a default whose variable is
  unset gives the empty string; a token that does not start the value is left alone.
\<close>

lemma GetString_tokens:
  "GetString (\<lambda>n. []) (new_config False True [(''e'', VString ''${ENV_X|fallback}'')]) ''e''
     = Inr (''fallback'', True)
   \<and> GetString (\<lambda>n. if n = ''ENV_X'' then ''v'' else [])
        (new_config False True [(''e'', VString ''${ENV_X|fallback}'')]) ''e'' = Inr (''v'', True)
   \<and> GetString (\<lambda>n. []) (new_config False True [(''e'', VString ''${NOPE}'')]) ''e'' = Inr ([], True)
   \<and> GetString (\<lambda>n. []) (new_config False True [(''e'', VString ''/a/${ENV_X|fallback}'')]) ''e''
     = Inr (''/a/${ENV_X|fallback}'', True)"
  by code_simp

end
